theory Spec2Isabelle
  imports Complex_Main
begin

section \<open>Python values used by app.py\<close>

text \<open>
  A Python \<open>str\<close> is a sequence of Unicode code points, so it is modelled as a list of
  code points. \<open>lit\<close> turns an ASCII literal of the source into such a list.
\<close>

type_synonym pystr = "nat list"

definition lit :: "string \<Rightarrow> pystr" where
  "lit s = map of_char s"

text \<open>
  \<open>str.strip()\<close> without argument removes the code points for which CPython's
  \<open>_PyUnicode_IsWhitespace\<close> holds, first from the left end, then from the right end.
\<close>

definition isspace :: "nat \<Rightarrow> bool" where
  "isspace c \<longleftrightarrow>
     (9 \<le> c \<and> c \<le> 13) \<or> (28 \<le> c \<and> c \<le> 32) \<or> c = 133 \<or> c = 160 \<or> c = 5760 \<or>
     (8192 \<le> c \<and> c \<le> 8202) \<or> c = 8232 \<or> c = 8233 \<or> c = 8239 \<or> c = 8287 \<or> c = 12288"

definition strip :: "pystr \<Rightarrow> pystr" where
  "strip s = rev (dropWhile isspace (rev (dropWhile isspace s)))"

text \<open>
  The decimal text of an integer, as an f-string renders \<open>{count}\<close>: code point 48 is the
  digit zero, 45 the minus sign.
\<close>

fun digits :: "nat \<Rightarrow> pystr" where
  "digits n = (if n < 10 then [48 + n] else digits (n div 10) @ [48 + n mod 10])"

definition str_int :: "int \<Rightarrow> pystr" where
  "str_int i = (if i < 0 then 45 # digits (nat (- i)) else digits (nat i))"

text \<open>\<open>sep.join(parts)\<close>.\<close>

fun join :: "pystr \<Rightarrow> pystr list \<Rightarrow> pystr" where
  "join sep [] = []"
| "join sep [x] = x"
| "join sep (x # y # ys) = x @ sep @ join sep (y # ys)"

text \<open>
  Exceptions. Only subclasses of \<open>Exception\<close> are values of this type: they are the ones
  an \<open>except Exception\<close> clause catches. \<open>KeyError\<close> carries the missing key,
  \<open>ValueError\<close> its message, \<open>OtherException\<close> the class name and the message of
  whatever an external library raised.
\<close>

datatype exn =
    KeyError pystr
  | TypeError
  | ValueError pystr
  | OtherException pystr pystr

text \<open>
  The object that \<open>request.json\<close> holds: a parsed JSON value. A \<open>JDict\<close> lists the
  members of the object in the order of the body's text; the JSON parser keeps the last
  member of a repeated key.
\<close>

datatype json =
    JNull
  | JBool bool
  | JNum rat
  | JStr pystr
  | JList "json list"
  | JDict "(pystr \<times> json) list"

text \<open>
  \<open>obj[key]\<close> with a \<open>str\<close> key: a dict without the key raises \<open>KeyError\<close>, every
  other parsed JSON value (list, str, number, bool, None) raises \<open>TypeError\<close>.
\<close>

fun getitem :: "json \<Rightarrow> pystr \<Rightarrow> exn + json" where
  "getitem (JDict members) key =
     (case map_of (rev members) key of None \<Rightarrow> Inl (KeyError key) | Some v \<Rightarrow> Inr v)"
| "getitem _ key = Inl TypeError"

section \<open>The external collaborators\<close>

text \<open>
  A source document of the retrieval pipeline and the dictionary the pipeline returns
  (it is built with \<open>return_source_documents=True\<close>, so both keys are present).
\<close>

record document =
  page_content :: pystr
  metadata :: "(pystr \<times> json) list"

record qa_result =
  result :: pystr
  source_documents :: "document list"

text \<open>
  The retrieval pipeline is a hosted service: what a call gives may change from one call
  to the next, so its outcome is a function of the position of the call in the life of the
  process (the \<open>clock\<close> below) and of the query; it either raises or returns.
\<close>

type_synonym pipeline = "nat \<Rightarrow> json \<Rightarrow> exn + qa_result"

text \<open>
  What \<open>LLMChain.predict\<close> submits to the hosted language model: the credential and the
  temperature the \<open>Cohere\<close> object was built with, the prompt template, and the values of
  its two variables.
\<close>

record llm_call =
  api_key :: pystr
  temperature :: rat
  prompt :: pystr
  chat_history :: "(json \<times> pystr) list"
  human_input :: json

type_synonym hosted_llm = "nat \<Rightarrow> llm_call \<Rightarrow> exn + pystr"

section \<open>The state of the process\<close>

text \<open>
  \<open>environ\<close> is \<open>os.environ\<close>, \<open>qa\<close> the module-level variable of that name
  (\<open>None\<close> or the pipeline), \<open>stdout\<close> the lines printed so far (each the fixed text
  and the exception printed after it), \<open>clock\<close> the number of calls made to hosted
  services, \<open>sent\<close> the calls submitted to the hosted language model.
\<close>

record world =
  environ :: "pystr \<rightharpoonup> pystr"
  qa :: "pipeline option"
  stdout :: "(pystr \<times> exn) list"
  clock :: nat
  sent :: "llm_call list"

definition print_error :: "pystr \<Rightarrow> exn \<Rightarrow> world \<Rightarrow> world" where
  "print_error text e w = w\<lparr>stdout := stdout w @ [(text, e)]\<rparr>"

section \<open>load_db and the module-level assignment\<close>

text \<open>
  \<open>build\<close> stands for the three constructor calls of the try block
  (\<open>CohereEmbeddings\<close>, \<open>Chroma\<close>, \<open>RetrievalQA.from_chain_type\<close>), given the
  credential. A function that falls off its end after the except clause returns \<open>None\<close>.
\<close>

definition load_db :: "(pystr \<Rightarrow> exn + pipeline) \<Rightarrow> world \<Rightarrow> pipeline option \<times> world" where
  "load_db build w =
     (case environ w (lit ''COHERE_API_KEY'') of
        None \<Rightarrow> (None, print_error (lit ''Error:'') (KeyError (lit ''COHERE_API_KEY'')) w)
      | Some cohere_api_key \<Rightarrow>
          (case build cohere_api_key of
             Inl e \<Rightarrow> (None, print_error (lit ''Error:'') e w)
           | Inr chain \<Rightarrow> (Some chain, w)))"

definition startup :: "(pystr \<Rightarrow> exn + pipeline) \<Rightarrow> (pystr \<rightharpoonup> pystr) \<Rightarrow> world" where
  "startup build env =
     (case load_db build \<lparr>environ = env, qa = None, stdout = [], clock = 0, sent = []\<rparr> of
        (handle, w) \<Rightarrow> w\<lparr>qa := handle\<rparr>)"

section \<open>The three wrapper functions\<close>

definition unavailable :: pystr where
  "unavailable =
     lit ''Sorry, the knowledge base is not available at the moment. Please try again later.''"

definition processing_failed :: pystr where
  "processing_failed = lit ''An error occurred while processing your request. Please try again.''"

definition searching_failed :: pystr where
  "searching_failed =
     lit ''An error occurred while searching the knowledge base. Please try again.''"

text \<open>\<open>qa({"query": message})\<close>: one call to the hosted pipeline.\<close>

definition call_qa :: "pipeline \<Rightarrow> json \<Rightarrow> world \<Rightarrow> (exn + qa_result) \<times> world" where
  "call_qa chain message w = (chain (clock w) message, w\<lparr>clock := Suc (clock w)\<rparr>)"

definition answer_from_knowledgebase :: "json \<Rightarrow> world \<Rightarrow> pystr \<times> world" where
  "answer_from_knowledgebase message w =
     (case qa w of
        None \<Rightarrow> (unavailable, w)
      | Some chain \<Rightarrow>
          (case call_qa chain message w of
             (Inr res, w') \<Rightarrow> (result res, w')
           | (Inl e, w') \<Rightarrow>
               (processing_failed,
                print_error (lit ''Error in answer_from_knowledgebase: '') e w')))"

text \<open>
  The for loop of \<open>search_knowledgebase\<close>: \<open>sources\<close> is the accumulator, \<open>count\<close> the
  counter of \<open>enumerate\<close>. Code point 10 is the newline.
\<close>

fun format_sources :: "pystr \<Rightarrow> int \<Rightarrow> document list \<Rightarrow> pystr" where
  "format_sources sources count [] = sources"
| "format_sources sources count (source # rest) =
     format_sources
       ((sources @ lit ''Source '' @ str_int count @ [10]) @ page_content source @ [10])
       (count + 1) rest"

definition search_knowledgebase :: "json \<Rightarrow> world \<Rightarrow> pystr \<times> world" where
  "search_knowledgebase message w =
     (case qa w of
        None \<Rightarrow> (unavailable, w)
      | Some chain \<Rightarrow>
          (case call_qa chain message w of
             (Inr res, w') \<Rightarrow> (strip (format_sources [] 1 (source_documents res)), w')
           | (Inl e, w') \<Rightarrow>
               (searching_failed,
                print_error (lit ''Error in search_knowledgebase: '') e w')))"

text \<open>The template of \<open>answer_as_chatbot\<close>, with the indentation of the source.\<close>

definition template :: pystr where
  "template = lit (
     ''You are a helpful AI assistant. Your goal is to provide informative and engaging responses to user queries.\<newline>'' @
     ''\<newline>'' @
     ''        Current conversation:\<newline>'' @
     ''        {chat_history}\<newline>'' @
     ''\<newline>'' @
     ''        Human: {human_input}\<newline>'' @
     ''        AI Assistant:'')"

text \<open>
  \<open>conversation_chain.predict(human_input=message)\<close>: the chain reads the history from
  its memory, submits the call, and stores the new turn in the memory. The memory is a
  local object of the call to \<open>answer_as_chatbot\<close>, so the stored turn is lost on return.
\<close>

definition predict :: "hosted_llm \<Rightarrow> llm_call \<Rightarrow> world \<Rightarrow> (exn + pystr) \<times> world" where
  "predict cohere call w =
     (cohere (clock w) call, w\<lparr>clock := Suc (clock w), sent := sent w @ [call]\<rparr>)"

text \<open>
  The try block of \<open>answer_as_chatbot\<close>; \<open>not cohere_api_key\<close> holds for
  \<open>None\<close> and for the empty string. The objects built before \<open>predict\<close> are local
  to the call; for the caller a constructor that raises is a raise of the try block like
  any other, one of the \<open>Inl\<close> outcomes of \<open>cohere\<close>.
\<close>

definition chatbot_try :: "hosted_llm \<Rightarrow> json \<Rightarrow> world \<Rightarrow> (exn + pystr) \<times> world" where
  "chatbot_try cohere message w =
     (case environ w (lit ''COHERE_API_KEY'') of
        None \<Rightarrow> (Inl (ValueError (lit ''COHERE_API_KEY environment variable not set'')), w)
      | Some cohere_api_key \<Rightarrow>
          if cohere_api_key = []
          then (Inl (ValueError (lit ''COHERE_API_KEY environment variable not set'')), w)
          else
            let memory = [] in
            predict cohere
              \<lparr>api_key = cohere_api_key, temperature = 7 / 10, prompt = template,
               chat_history = memory, human_input = message\<rparr> w)"

definition answer_as_chatbot :: "hosted_llm \<Rightarrow> json \<Rightarrow> world \<Rightarrow> pystr \<times> world" where
  "answer_as_chatbot cohere message w =
     (case chatbot_try cohere message w of
        (Inr response, w') \<Rightarrow> (response, w')
      | (Inl e, w') \<Rightarrow>
          (processing_failed, print_error (lit ''Error in answer_as_chatbot: '') e w'))"

section \<open>The routes\<close>

text \<open>\<open>jsonify({'message': text})\<close>.\<close>

definition jsonify_message :: "pystr \<Rightarrow> json" where
  "jsonify_message text = JDict [(lit ''message'', JStr text)]"

text \<open>
  A view function either raises or returns a payload with a status code. The subscript
  \<open>request.json['message']\<close> stands outside every try block.
\<close>

definition kbanswer :: "json \<Rightarrow> world \<Rightarrow> (exn + json \<times> nat) \<times> world" where
  "kbanswer body w =
     (case getitem body (lit ''message'') of
        Inl e \<Rightarrow> (Inl e, w)
      | Inr message \<Rightarrow>
          (case answer_from_knowledgebase message w of
             (response_message, w') \<Rightarrow> (Inr (jsonify_message response_message, 200), w')))"

definition search :: "json \<Rightarrow> world \<Rightarrow> (exn + json \<times> nat) \<times> world" where
  "search body w =
     (case getitem body (lit ''message'') of
        Inl e \<Rightarrow> (Inl e, w)
      | Inr message \<Rightarrow>
          (case search_knowledgebase message w of
             (search_results, w') \<Rightarrow> (Inr (jsonify_message search_results, 200), w')))"

definition answer :: "hosted_llm \<Rightarrow> json \<Rightarrow> world \<Rightarrow> (exn + json \<times> nat) \<times> world" where
  "answer cohere body w =
     (case getitem body (lit ''message'') of
        Inl e \<Rightarrow> (Inl e, w)
      | Inr message \<Rightarrow>
          (case answer_as_chatbot cohere message w of
             (response_message, w') \<Rightarrow> (Inr (jsonify_message response_message, 200), w')))"

text \<open>
  The three POST routes, and what Flask does with a view: the returned pair becomes the
  response; an exception that leaves the view and is not an HTTP exception becomes the
  Internal Server Error page, status 500 (the application registers no error handler and
  runs with the default configuration).
\<close>

datatype route = Kbanswer | Search | Answer

datatype response = JsonResponse json nat | ErrorPage nat

fun status_code :: "response \<Rightarrow> nat" where
  "status_code (JsonResponse payload code) = code"
| "status_code (ErrorPage code) = code"

definition dispatch_request ::
    "hosted_llm \<Rightarrow> route \<Rightarrow> json \<Rightarrow> world \<Rightarrow> (exn + json \<times> nat) \<times> world" where
  "dispatch_request cohere r body w =
     (case r of
        Kbanswer \<Rightarrow> kbanswer body w
      | Search \<Rightarrow> search body w
      | Answer \<Rightarrow> answer cohere body w)"

definition handle_request :: "hosted_llm \<Rightarrow> route \<times> json \<Rightarrow> world \<Rightarrow> response \<times> world" where
  "handle_request cohere req w =
     (case dispatch_request cohere (fst req) (snd req) w of
        (Inr (payload, code), w') \<Rightarrow> (JsonResponse payload code, w')
      | (Inl e, w') \<Rightarrow> (ErrorPage 500, w'))"

text \<open>The process serving a sequence of requests, one after the other.\<close>

fun serve :: "hosted_llm \<Rightarrow> (route \<times> json) list \<Rightarrow> world \<Rightarrow> response list \<times> world" where
  "serve cohere [] w = ([], w)"
| "serve cohere (req # reqs) w =
     (case handle_request cohere req w of
        (resp, w') \<Rightarrow> (case serve cohere reqs w' of (resps, w'') \<Rightarrow> (resp # resps, w'')))"

section \<open>Specification-side notions and example data\<close>

text \<open>
  The labeled block of the specification for the document numbered \<open>k\<close>: the line
  \<open>Source k\<close> followed by the text content of the document. \<open>spec_blocks k ds\<close>
  are the blocks of the documents \<open>ds\<close>, in their order, numbered from \<open>k\<close>.
\<close>

definition spec_block :: "int \<Rightarrow> document \<Rightarrow> pystr" where
  "spec_block k d = lit ''Source '' @ str_int k @ [10] @ page_content d"

fun spec_blocks :: "int \<Rightarrow> document list \<Rightarrow> pystr list" where
  "spec_blocks k [] = []"
| "spec_blocks k (d # ds) = spec_block k d # spec_blocks (k + 1) ds"

text \<open>The members of a request body: those of the object when the body is a JSON object;
  a JSON value that is not an object has none.\<close>

fun object_members :: "json \<Rightarrow> (pystr \<times> json) list" where
  "object_members (JDict members) = members"
| "object_members _ = []"

text \<open>The calls that one run of \<open>answer_as_chatbot\<close> in the world \<open>w\<close> submits to the
  hosted language model.\<close>

definition new_calls :: "hosted_llm \<Rightarrow> json \<Rightarrow> world \<Rightarrow> llm_call list" where
  "new_calls cohere message w =
     drop (length (sent w)) (sent (snd (answer_as_chatbot cohere message w)))"

text \<open>Example environments, pipelines, constructors and hosted models.\<close>

definition with_credential :: "pystr \<rightharpoonup> pystr" where
  "with_credential = [lit ''COHERE_API_KEY'' \<mapsto> lit ''secret'']"

definition no_credential :: "pystr \<rightharpoonup> pystr" where
  "no_credential = Map.empty"

definition policy_documents :: "document list" where
  "policy_documents =
     [\<lparr>page_content = lit ''Refunds are processed within 14 days.'', metadata = []\<rparr>,
      \<lparr>page_content = lit ''Contact support to start a refund.  '', metadata = []\<rparr>]"

definition policy_pipeline :: pipeline where
  "policy_pipeline n message =
     Inr \<lparr>result = lit ''Refunds are processed within 14 days.'',
          source_documents = policy_documents\<rparr>"

definition silent_pipeline :: pipeline where
  "silent_pipeline n message = Inr \<lparr>result = lit ''I do not know.'', source_documents = []\<rparr>"

definition broken_pipeline :: pipeline where
  "broken_pipeline n message =
     Inl (OtherException (lit ''CohereError'') (lit ''service unavailable''))"

definition build_policy :: "pystr \<Rightarrow> exn + pipeline" where
  "build_policy cohere_api_key = Inr policy_pipeline"

definition build_silent :: "pystr \<Rightarrow> exn + pipeline" where
  "build_silent cohere_api_key = Inr silent_pipeline"

definition build_broken :: "pystr \<Rightarrow> exn + pipeline" where
  "build_broken cohere_api_key = Inr broken_pipeline"

definition greeting_llm :: hosted_llm where
  "greeting_llm n call = Inr (lit ''Hello! How can I help?'')"

definition moody_llm :: hosted_llm where
  "moody_llm n call =
     (if even n then Inr (lit ''Yes.'')
      else Inl (OtherException (lit ''CohereError'') (lit ''rate limit'')))"

definition refund_question :: json where
  "refund_question = JStr (lit ''What is the refund policy?'')"

definition refund_body :: json where
  "refund_body = JDict [(lit ''message'', refund_question)]"

definition stray_body :: json where
  "stray_body = JDict [(lit ''text'', refund_question)]"

definition policy_world :: world where
  "policy_world = startup build_policy with_credential"

definition silent_world :: world where
  "silent_world = startup build_silent with_credential"

definition broken_world :: world where
  "broken_world = startup build_broken with_credential"

definition unavailable_world :: world where
  "unavailable_world = startup build_policy no_credential"

definition mixed_requests :: "(route \<times> json) list" where
  "mixed_requests = [(Kbanswer, refund_body), (Answer, refund_body), (Search, refund_body)]"

section \<open>Strings\<close>

declare digits.simps [simp del]
declare getitem.simps [simp del]

lemma lit_eq_iff: "lit a = lit b \<longleftrightarrow> a = b"
  unfolding lit_def by (simp add: inj_on_def)

lemma failure_strings_distinct:
  "unavailable \<noteq> processing_failed" "unavailable \<noteq> searching_failed"
  "processing_failed \<noteq> searching_failed"
  by (simp_all add: unavailable_def processing_failed_def searching_failed_def lit_eq_iff)

lemma isspace_newline: "isspace 10"
  by (simp add: isspace_def)

lemma strip_snoc_space:
  assumes "isspace c"
  shows "strip (xs @ [c]) = strip xs"
proof (cases "\<forall>x \<in> set xs. isspace x")
  case True
  then have "dropWhile isspace (xs @ [c]) = []" and "dropWhile isspace xs = []"
    using assms by simp_all
  then show ?thesis unfolding strip_def by (simp only:)
next
  case False
  then have "dropWhile isspace (xs @ [c]) = dropWhile isspace xs @ [c]"
    by auto
  then show ?thesis using assms by (simp add: strip_def)
qed

lemma rev_dropWhile_rev_take:
  "rev (dropWhile P (rev t)) = take (length (dropWhile P (rev t))) t"
  by (metis append_take_drop_id dropWhile_eq_drop length_rev rev_drop rev_rev_ident
      append_eq_conv_conj)

lemma strip_no_leading:
  assumes "strip s \<noteq> []"
  shows "\<not> isspace (hd (strip s))"
proof -
  define t where "t = dropWhile isspace s"
  define n where "n = length (dropWhile isspace (rev t))"
  have eq: "strip s = take n t"
    unfolding strip_def t_def [symmetric] n_def by (rule rev_dropWhile_rev_take)
  with assms have "0 < n" and "t \<noteq> []" by auto
  then have "hd (strip s) = hd t" using eq by simp
  moreover have "\<not> isspace (hd t)"
    using \<open>t \<noteq> []\<close> unfolding t_def by (rule hd_dropWhile)
  ultimately show ?thesis by simp
qed

lemma strip_no_trailing: "strip s \<noteq> [] \<Longrightarrow> \<not> isspace (last (strip s))"
  unfolding strip_def by (simp add: last_rev hd_dropWhile)

lemma strip_trimmed: "strip s = [] \<or> (\<not> isspace (hd (strip s)) \<and> \<not> isspace (last (strip s)))"
  using strip_no_leading strip_no_trailing by blast

section \<open>The loop of search_knowledgebase\<close>

lemma format_sources_concat:
  "format_sources acc c ds = acc @ concat (map (\<lambda>b. b @ [10]) (spec_blocks c ds))"
  by (induction ds arbitrary: acc c) (simp_all add: spec_block_def)

lemma concat_join: "bs \<noteq> [] \<Longrightarrow> concat (map (\<lambda>b. b @ sep) bs) = join sep bs @ sep"
  by (induction sep bs rule: join.induct) simp_all

lemma length_spec_blocks: "length (spec_blocks k ds) = length ds"
  by (induction ds arbitrary: k) simp_all

lemma nth_spec_blocks:
  "i < length ds \<Longrightarrow> spec_blocks k ds ! i = spec_block (k + int i) (ds ! i)"
proof (induction ds arbitrary: k i)
  case Nil
  then show ?case by simp
next
  case (Cons d ds)
  then show ?case by (cases i) (simp_all add: add.assoc)
qed

lemma strip_format_sources:
  "strip (format_sources [] 1 ds) = strip (join [10] (spec_blocks 1 ds))"
proof (cases ds)
  case Nil
  then show ?thesis by simp
next
  case (Cons d ds')
  then have "spec_blocks 1 ds \<noteq> []" by simp
  then have "format_sources [] 1 ds = join [10] (spec_blocks 1 ds) @ [10]"
    by (simp add: format_sources_concat concat_join)
  then show ?thesis by (simp add: strip_snoc_space isspace_newline)
qed

section \<open>The subscript on the request body\<close>

lemma getitem_single: "getitem (JDict [(key, v)]) key = Inr v"
  by (simp add: getitem.simps)

lemma getitem_present:
  assumes "key \<in> fst ` set (object_members body)"
  shows "\<exists>v. getitem body key = Inr v"
proof (cases body)
  case (JDict members)
  with assms have "map_of (rev members) key \<noteq> None"
    by (simp add: map_of_eq_None_iff)
  then show ?thesis by (auto simp: JDict getitem.simps)
qed (use assms in simp_all)

lemma getitem_absent:
  assumes "key \<notin> fst ` set members"
  shows "getitem (JDict members) key = Inl (KeyError key)"
proof -
  from assms have "map_of (rev members) key = None"
    by (simp add: map_of_eq_None_iff)
  then show ?thesis by (simp add: getitem.simps)
qed

lemma getitem_lacking:
  assumes "key \<notin> fst ` set (object_members body)"
  shows "\<exists>e. getitem body key = Inl e"
proof (cases body)
  case (JDict members)
  with assms have "key \<notin> fst ` set members" by simp
  then show ?thesis by (simp add: JDict getitem_absent)
qed (simp_all add: getitem.simps)

section \<open>What a request does\<close>

lemma call_qa_simps:
  "fst (call_qa chain message w) = chain (clock w) message"
  "snd (call_qa chain message w) = w\<lparr>clock := Suc (clock w)\<rparr>"
  by (simp_all add: call_qa_def)

lemma answer_from_knowledgebase_None:
  "qa w = None \<Longrightarrow> answer_from_knowledgebase message w = (unavailable, w)"
  by (simp add: answer_from_knowledgebase_def)

lemma search_knowledgebase_None:
  "qa w = None \<Longrightarrow> search_knowledgebase message w = (unavailable, w)"
  by (simp add: search_knowledgebase_def)

lemma answer_from_knowledgebase_Inr:
  "qa w = Some chain \<Longrightarrow> chain (clock w) message = Inr res \<Longrightarrow>
   answer_from_knowledgebase message w = (result res, w\<lparr>clock := Suc (clock w)\<rparr>)"
  by (simp add: answer_from_knowledgebase_def call_qa_def)

lemma answer_from_knowledgebase_Inl:
  "qa w = Some chain \<Longrightarrow> chain (clock w) message = Inl e \<Longrightarrow>
   fst (answer_from_knowledgebase message w) = processing_failed"
  by (simp add: answer_from_knowledgebase_def call_qa_def)

lemma search_knowledgebase_Inr:
  "qa w = Some chain \<Longrightarrow> chain (clock w) message = Inr res \<Longrightarrow>
   search_knowledgebase message w =
     (strip (format_sources [] 1 (source_documents res)), w\<lparr>clock := Suc (clock w)\<rparr>)"
  by (simp add: search_knowledgebase_def call_qa_def)

lemma search_knowledgebase_Inl:
  "qa w = Some chain \<Longrightarrow> chain (clock w) message = Inl e \<Longrightarrow>
   fst (search_knowledgebase message w) = searching_failed"
  by (simp add: search_knowledgebase_def call_qa_def)

lemma answer_as_chatbot_case:
  "fst (answer_as_chatbot cohere message w) =
     (case fst (chatbot_try cohere message w) of
        Inl e \<Rightarrow> processing_failed
      | Inr response \<Rightarrow> response)"
  by (simp add: answer_as_chatbot_def split: prod.splits sum.splits)

lemma chatbot_try_no_credential:
  "environ w (lit ''COHERE_API_KEY'') = None \<Longrightarrow>
   chatbot_try cohere message w =
     (Inl (ValueError (lit ''COHERE_API_KEY environment variable not set'')), w)"
  by (simp add: chatbot_try_def)

lemma handle_request_message:
  assumes "getitem body (lit ''message'') = Inr message"
  shows "handle_request cohere (Kbanswer, body) w =
           (JsonResponse (jsonify_message (fst (answer_from_knowledgebase message w))) 200,
            snd (answer_from_knowledgebase message w))"
    and "handle_request cohere (Search, body) w =
           (JsonResponse (jsonify_message (fst (search_knowledgebase message w))) 200,
            snd (search_knowledgebase message w))"
    and "handle_request cohere (Answer, body) w =
           (JsonResponse (jsonify_message (fst (answer_as_chatbot cohere message w))) 200,
            snd (answer_as_chatbot cohere message w))"
  using assms
  by (simp_all add: handle_request_def dispatch_request_def kbanswer_def search_def answer_def
      split: prod.splits)

lemma handle_request_no_message:
  assumes "getitem body (lit ''message'') = Inl e"
  shows "handle_request cohere (r, body) w = (ErrorPage 500, w)"
  using assms
  by (cases r)
    (simp_all add: handle_request_def dispatch_request_def kbanswer_def search_def answer_def)

section \<open>What a request leaves unchanged\<close>

lemma wrappers_keep_qa:
  "qa (snd (answer_from_knowledgebase message w)) = qa w"
  "qa (snd (search_knowledgebase message w)) = qa w"
  "qa (snd (answer_as_chatbot cohere message w)) = qa w"
  by (simp_all add: answer_from_knowledgebase_def search_knowledgebase_def answer_as_chatbot_def
      chatbot_try_def predict_def call_qa_def print_error_def Let_def
      split: option.splits sum.splits prod.splits if_splits)

lemma wrappers_keep_environ:
  "environ (snd (answer_from_knowledgebase message w)) = environ w"
  "environ (snd (search_knowledgebase message w)) = environ w"
  "environ (snd (answer_as_chatbot cohere message w)) = environ w"
  by (simp_all add: answer_from_knowledgebase_def search_knowledgebase_def answer_as_chatbot_def
      chatbot_try_def predict_def call_qa_def print_error_def Let_def
      split: option.splits sum.splits prod.splits if_splits)

lemma handle_request_keeps:
  "qa (snd (handle_request cohere req w)) = qa w"
  "environ (snd (handle_request cohere req w)) = environ w"
proof -
  obtain r body where req: "req = (r, body)" by (cases req)
  show "qa (snd (handle_request cohere req w)) = qa w"
  proof (cases "getitem body (lit ''message'')")
    case (Inl e)
    then show ?thesis by (simp add: req handle_request_no_message)
  next
    case (Inr message)
    then show ?thesis by (cases r) (simp_all add: req handle_request_message wrappers_keep_qa)
  qed
  show "environ (snd (handle_request cohere req w)) = environ w"
  proof (cases "getitem body (lit ''message'')")
    case (Inl e)
    then show ?thesis by (simp add: req handle_request_no_message)
  next
    case (Inr message)
    then show ?thesis
      by (cases r) (simp_all add: req handle_request_message wrappers_keep_environ)
  qed
qed

lemma serve_keeps:
  "qa (snd (serve cohere reqs w)) = qa w"
  "environ (snd (serve cohere reqs w)) = environ w"
proof (induction reqs arbitrary: w)
  case Nil
  {
    case 1
    show ?case by simp
  next
    case 2
    show ?case by simp
  }
next
  case (Cons req reqs)
  {
    case 1
    have "snd (serve cohere (req # reqs) w) = snd (serve cohere reqs (snd (handle_request cohere req w)))"
      by (simp split: prod.splits)
    then show ?case by (simp add: Cons.IH(1) handle_request_keeps)
  next
    case 2
    have "snd (serve cohere (req # reqs) w) = snd (serve cohere reqs (snd (handle_request cohere req w)))"
      by (simp split: prod.splits)
    then show ?case by (simp add: Cons.IH(2) handle_request_keeps)
  }
qed

section \<open>The example worlds\<close>

lemma example_worlds:
  "policy_world =
     \<lparr>environ = with_credential, qa = Some policy_pipeline, stdout = [], clock = 0, sent = []\<rparr>"
  "silent_world =
     \<lparr>environ = with_credential, qa = Some silent_pipeline, stdout = [], clock = 0, sent = []\<rparr>"
  "broken_world =
     \<lparr>environ = with_credential, qa = Some broken_pipeline, stdout = [], clock = 0, sent = []\<rparr>"
  "unavailable_world =
     \<lparr>environ = no_credential, qa = None,
      stdout = [(lit ''Error:'', KeyError (lit ''COHERE_API_KEY''))], clock = 0, sent = []\<rparr>"
  by (simp_all add: policy_world_def silent_world_def broken_world_def unavailable_world_def
      startup_def load_db_def with_credential_def no_credential_def build_policy_def
      build_silent_def build_broken_def print_error_def)

lemma example_bodies:
  "getitem refund_body (lit ''message'') = Inr refund_question"
  "getitem stray_body (lit ''message'') = Inl (KeyError (lit ''message''))"
  by (simp_all add: refund_body_def stray_body_def getitem.simps lit_eq_iff)

lemma serve_Cons:
  "fst (serve cohere (req # reqs) w) =
     fst (handle_request cohere req w) # fst (serve cohere reqs (snd (handle_request cohere req w)))"
  "snd (serve cohere (req # reqs) w) = snd (serve cohere reqs (snd (handle_request cohere req w)))"
  by (simp_all split: prod.splits)

lemma serve_unavailable:
  assumes "qa w = None" and "i < length reqs"
    and "reqs ! i = (Kbanswer, body) \<or> reqs ! i = (Search, body)"
    and "getitem body (lit ''message'') = Inr message"
  shows "fst (serve cohere reqs w) ! i = JsonResponse (jsonify_message unavailable) 200"
  using assms
proof (induction reqs arbitrary: w i)
  case Nil
  then show ?case by simp
next
  case (Cons req reqs)
  show ?case
  proof (cases i)
    case 0
    with Cons.prems have "req = (Kbanswer, body) \<or> req = (Search, body)" by simp
    then have "fst (handle_request cohere req w) = JsonResponse (jsonify_message unavailable) 200"
      using Cons.prems(1,4)
      by (auto simp: handle_request_message answer_from_knowledgebase_None
          search_knowledgebase_None)
    then show ?thesis by (simp add: 0 serve_Cons del: serve.simps)
  next
    case (Suc j)
    have "qa (snd (handle_request cohere req w)) = None"
      using Cons.prems(1) by (simp add: handle_request_keeps)
    moreover have "j < length reqs" using Cons.prems(2) Suc by simp
    moreover have "reqs ! j = (Kbanswer, body) \<or> reqs ! j = (Search, body)"
      using Cons.prems(3) Suc by simp
    ultimately have
      "fst (serve cohere reqs (snd (handle_request cohere req w))) ! j =
         JsonResponse (jsonify_message unavailable) 200"
      using Cons.prems(4) by (rule Cons.IH)
    then show ?thesis by (simp add: Suc serve_Cons del: serve.simps)
  qed
qed

lemma answer_as_chatbot_ignores_qa:
  "answer_as_chatbot cohere message (w\<lparr>qa := h\<rparr>) =
     (fst (answer_as_chatbot cohere message w), (snd (answer_as_chatbot cohere message w))\<lparr>qa := h\<rparr>)"
  by (simp add: answer_as_chatbot_def chatbot_try_def predict_def print_error_def Let_def
      split: option.splits sum.splits prod.splits)

lemma answer_route_ignores_qa:
  "handle_request cohere (Answer, body) (w\<lparr>qa := h\<rparr>) =
     (fst (handle_request cohere (Answer, body) w),
      (snd (handle_request cohere (Answer, body) w))\<lparr>qa := h\<rparr>)"
proof (cases "getitem body (lit ''message'')")
  case (Inl e)
  then show ?thesis by (simp add: handle_request_no_message)
next
  case (Inr message)
  then show ?thesis by (simp add: handle_request_message answer_as_chatbot_ignores_qa)
qed

lemma new_calls_eq:
  "new_calls cohere message w =
     (case environ w (lit ''COHERE_API_KEY'') of
        None \<Rightarrow> []
      | Some k \<Rightarrow>
          if k = [] then []
          else [\<lparr>api_key = k, temperature = 7 / 10, prompt = template,
                 chat_history = [], human_input = message\<rparr>])"
  by (simp add: new_calls_def answer_as_chatbot_def chatbot_try_def predict_def print_error_def
      Let_def split: option.splits sum.splits prod.splits)

lemma answer_as_chatbot_result:
  "fst (answer_as_chatbot cohere message w) =
     (case environ w (lit ''COHERE_API_KEY'') of
        None \<Rightarrow> processing_failed
      | Some k \<Rightarrow>
          if k = [] then processing_failed
          else (case cohere (clock w)
                  \<lparr>api_key = k, temperature = 7 / 10, prompt = template,
                   chat_history = [], human_input = message\<rparr> of
                  Inl e \<Rightarrow> processing_failed
                | Inr response \<Rightarrow> response))"
  by (simp add: answer_as_chatbot_def chatbot_try_def predict_def print_error_def
      Let_def split: option.splits sum.splits prod.splits)

lemma startup_without_pipeline:
  "qa (startup build env) = None \<longleftrightarrow>
     (case env (lit ''COHERE_API_KEY'') of
        None \<Rightarrow> True
      | Some cohere_api_key \<Rightarrow> (case build cohere_api_key of Inl e \<Rightarrow> True | Inr chain \<Rightarrow> False))"
  by (simp add: startup_def load_db_def split: option.splits sum.splits)

section \<open>Claims\<close>

text \<open>
  C1. When the pipeline is available and its call returns, \<open>search_knowledgebase\<close>
  returns the labeled blocks of the returned documents, one block for each document, in
  the order of the documents, the block of the document at position \<open>k\<close> (from 0) being
  the line \<open>Source k+1\<close> followed by the text content of the document; the blocks are
  separated by newlines and the whole is stripped, so the returned string neither starts
  nor ends with whitespace.
\<close>

theorem search_knowledgebase_labeled_blocks:
  assumes "qa w = Some chain" and "chain (clock w) message = Inr res"
  shows "length (spec_blocks 1 (source_documents res)) = length (source_documents res) \<and>
    (\<forall>k < length (source_documents res).
       spec_blocks 1 (source_documents res) ! k =
         lit ''Source '' @ str_int (int k + 1) @ [10] @ page_content (source_documents res ! k)) \<and>
    fst (search_knowledgebase message w) = strip (join [10] (spec_blocks 1 (source_documents res))) \<and>
    (fst (search_knowledgebase message w) = [] \<or>
     (\<not> isspace (hd (fst (search_knowledgebase message w))) \<and>
      \<not> isspace (last (fst (search_knowledgebase message w)))))"
proof -
  have blocks: "\<forall>k < length (source_documents res).
       spec_blocks 1 (source_documents res) ! k =
         lit ''Source '' @ str_int (int k + 1) @ [10] @ page_content (source_documents res ! k)"
    by (simp add: nth_spec_blocks spec_block_def add.commute)
  have ret: "fst (search_knowledgebase message w) = strip (format_sources [] 1 (source_documents res))"
    using assms by (simp add: search_knowledgebase_Inr)
  then have joined: "fst (search_knowledgebase message w) =
      strip (join [10] (spec_blocks 1 (source_documents res)))"
    by (simp add: strip_format_sources)
  have trimmed: "fst (search_knowledgebase message w) = [] \<or>
     (\<not> isspace (hd (fst (search_knowledgebase message w))) \<and>
      \<not> isspace (last (fst (search_knowledgebase message w))))"
    unfolding ret by (rule strip_trimmed)
  show ?thesis using blocks joined trimmed by (simp add: length_spec_blocks)
qed

theorem search_knowledgebase_labeled_blocks_witness:
  "qa policy_world = Some policy_pipeline \<and>
   policy_pipeline (clock policy_world) refund_question =
     Inr \<lparr>result = lit ''Refunds are processed within 14 days.'',
          source_documents = policy_documents\<rparr> \<and>
   fst (search_knowledgebase refund_question policy_world) =
     lit (''Source 1\<newline>Refunds are processed within 14 days.\<newline>'' @
          ''Source 2\<newline>Contact support to start a refund.'')"
proof -
  have h1: "qa policy_world = Some policy_pipeline"
    by (simp add: example_worlds)
  have h2: "policy_pipeline (clock policy_world) refund_question =
     Inr \<lparr>result = lit ''Refunds are processed within 14 days.'',
          source_documents = policy_documents\<rparr>"
    by (simp add: policy_pipeline_def)
  have "fst (search_knowledgebase refund_question policy_world) =
      strip (join [10] (spec_blocks 1 policy_documents))"
    using search_knowledgebase_labeled_blocks [OF h1 h2] by simp
  also have "\<dots> = lit (''Source 1\<newline>Refunds are processed within 14 days.\<newline>'' @
          ''Source 2\<newline>Contact support to start a refund.'')"
    by (simp add: policy_documents_def spec_block_def str_int_def digits.simps lit_def
        strip_def isspace_def)
  finally show ?thesis using h1 h2 by simp
qed

text \<open>
  C2, as the code has it. A POST request to any of the three routes whose JSON body has
  no \<open>message\<close> member (an object without that key, or a JSON value that is not an
  object, which has no members) raises in the view before any wrapper function runs; the framework answers with
  the Internal Server Error page, status 500, and the state of the process is unchanged.
\<close>

theorem missing_message_server_error:
  assumes "lit ''message'' \<notin> fst ` set (object_members body)"
  shows "handle_request cohere (r, body) w = (ErrorPage 500, w) \<and>
    status_code (fst (handle_request cohere (r, body) w)) = 500"
proof -
  obtain e where "getitem body (lit ''message'') = Inl e"
    using getitem_lacking [OF assms] by blast
  then show ?thesis by (simp add: handle_request_no_message)
qed

theorem missing_message_server_error_witness:
  "lit ''message'' \<notin> fst ` set (object_members stray_body) \<and>
   handle_request greeting_llm (Answer, stray_body) policy_world = (ErrorPage 500, policy_world)"
proof -
  have h: "lit ''message'' \<notin> fst ` set (object_members stray_body)"
    by (simp add: stray_body_def lit_eq_iff)
  show ?thesis
    using h missing_message_server_error [OF h, of greeting_llm Answer policy_world] by simp
qed

text \<open>
  C2, as stated, fails: the body \<open>{"text": "What is the refund policy?"}\<close> posted to
  \<open>/kbanswer\<close> is answered with status 500, which is not a client error.
\<close>

theorem missing_message_counterexample:
  "status_code (fst (handle_request greeting_llm (Kbanswer, stray_body) policy_world)) = 500 \<and>
   \<not> (400 \<le> status_code (fst (handle_request greeting_llm (Kbanswer, stray_body) policy_world)) \<and>
      status_code (fst (handle_request greeting_llm (Kbanswer, stray_body) policy_world)) < 500)"
  by (simp add: handle_request_no_message [OF example_bodies(2)])

text \<open>
  C3. When the module-level handle \<open>qa\<close> is \<open>None\<close>, both knowledge-base functions
  return the unavailability string; in every sequence of requests served from then on,
  every request to \<open>/kbanswer\<close> or \<open>/search\<close> that carries a message is answered with
  that string and status 200, and the handle is still \<open>None\<close> afterwards. What
  \<open>/answer\<close> responds and does is the same whatever the handle is.
\<close>

theorem unavailable_mode:
  assumes "qa w = None"
  shows "fst (answer_from_knowledgebase message w) = unavailable \<and>
    fst (search_knowledgebase message w) = unavailable \<and>
    (\<forall>i < length reqs. \<forall>body m.
       (reqs ! i = (Kbanswer, body) \<or> reqs ! i = (Search, body)) \<and>
       getitem body (lit ''message'') = Inr m \<longrightarrow>
       fst (serve cohere reqs w) ! i = JsonResponse (jsonify_message unavailable) 200) \<and>
    qa (snd (serve cohere reqs w)) = None \<and>
    (\<forall>h body.
       fst (handle_request cohere (Answer, body) (w\<lparr>qa := h\<rparr>)) =
         fst (handle_request cohere (Answer, body) w) \<and>
       snd (handle_request cohere (Answer, body) (w\<lparr>qa := h\<rparr>)) =
         (snd (handle_request cohere (Answer, body) w))\<lparr>qa := h\<rparr>)"
proof -
  have "fst (answer_from_knowledgebase message w) = unavailable"
    using assms by (simp add: answer_from_knowledgebase_None)
  moreover have "fst (search_knowledgebase message w) = unavailable"
    using assms by (simp add: search_knowledgebase_None)
  moreover have "\<forall>i < length reqs. \<forall>body m.
       (reqs ! i = (Kbanswer, body) \<or> reqs ! i = (Search, body)) \<and>
       getitem body (lit ''message'') = Inr m \<longrightarrow>
       fst (serve cohere reqs w) ! i = JsonResponse (jsonify_message unavailable) 200"
    using serve_unavailable [OF assms] by blast
  moreover have "qa (snd (serve cohere reqs w)) = None"
    using assms by (simp add: serve_keeps)
  moreover have "\<forall>h body.
       fst (handle_request cohere (Answer, body) (w\<lparr>qa := h\<rparr>)) =
         fst (handle_request cohere (Answer, body) w) \<and>
       snd (handle_request cohere (Answer, body) (w\<lparr>qa := h\<rparr>)) =
         (snd (handle_request cohere (Answer, body) w))\<lparr>qa := h\<rparr>"
    by (simp add: answer_route_ignores_qa)
  ultimately show ?thesis by blast
qed

theorem unavailable_mode_witness:
  "qa unavailable_world = None \<and>
   fst (serve moody_llm mixed_requests unavailable_world) ! 0 =
     JsonResponse (jsonify_message unavailable) 200 \<and>
   fst (serve moody_llm mixed_requests unavailable_world) ! 2 =
     JsonResponse (jsonify_message unavailable) 200 \<and>
   qa (snd (serve moody_llm mixed_requests unavailable_world)) = None"
proof -
  have h: "qa unavailable_world = None"
    by (simp add: example_worlds)
  note T = unavailable_mode [OF h, of refund_question mixed_requests moody_llm]
  from T have each: "\<And>i body m. i < length mixed_requests \<Longrightarrow>
      mixed_requests ! i = (Kbanswer, body) \<or> mixed_requests ! i = (Search, body) \<Longrightarrow>
      getitem body (lit ''message'') = Inr m \<Longrightarrow>
      fst (serve moody_llm mixed_requests unavailable_world) ! i =
        JsonResponse (jsonify_message unavailable) 200"
    by blast
  have "fst (serve moody_llm mixed_requests unavailable_world) ! 0 =
      JsonResponse (jsonify_message unavailable) 200"
    by (rule each [of 0 refund_body refund_question])
      (simp_all add: mixed_requests_def example_bodies)
  moreover have "fst (serve moody_llm mixed_requests unavailable_world) ! 2 =
      JsonResponse (jsonify_message unavailable) 200"
    by (rule each [of 2 refund_body refund_question])
      (simp_all add: mixed_requests_def example_bodies)
  moreover from T have "qa (snd (serve moody_llm mixed_requests unavailable_world)) = None"
    by blast
  ultimately show ?thesis using h by blast
qed

text \<open>
  C4, as the code has it. When the call to the pipeline raises, each of the two
  knowledge-base functions returns a fixed string of its own:
  \<open>answer_from_knowledgebase\<close> the one about processing the request,
  \<open>search_knowledgebase\<close> the one about searching the knowledge base; the endpoint
  answers with that string and status 200. Over all three wrapper functions a failure
  becomes one of three different literal strings: the unavailability string when the
  handle is \<open>None\<close>, and these two, the first of which \<open>answer_as_chatbot\<close> returns
  too when its try block raises.
\<close>

theorem upstream_failure_strings:
  assumes "qa w = Some chain" and "chain (clock w) message = Inl e"
  shows "fst (answer_from_knowledgebase message w) = processing_failed \<and>
    fst (search_knowledgebase message w) = searching_failed \<and>
    fst (handle_request cohere (Kbanswer, JDict [(lit ''message'', message)]) w) =
      JsonResponse (jsonify_message processing_failed) 200 \<and>
    fst (handle_request cohere (Search, JDict [(lit ''message'', message)]) w) =
      JsonResponse (jsonify_message searching_failed) 200 \<and>
    fst (answer_from_knowledgebase message (w\<lparr>qa := None\<rparr>)) = unavailable \<and>
    fst (search_knowledgebase message (w\<lparr>qa := None\<rparr>)) = unavailable \<and>
    fst (answer_as_chatbot cohere message w) =
      (case fst (chatbot_try cohere message w) of
         Inl e \<Rightarrow> processing_failed
       | Inr response \<Rightarrow> response) \<and>
    distinct [unavailable, processing_failed, searching_failed]"
proof -
  have a: "fst (answer_from_knowledgebase message w) = processing_failed"
    using assms by (rule answer_from_knowledgebase_Inl)
  have s: "fst (search_knowledgebase message w) = searching_failed"
    using assms by (rule search_knowledgebase_Inl)
  have "fst (handle_request cohere (Kbanswer, JDict [(lit ''message'', message)]) w) =
      JsonResponse (jsonify_message processing_failed) 200"
    by (simp add: handle_request_message [OF getitem_single] a)
  moreover have "fst (handle_request cohere (Search, JDict [(lit ''message'', message)]) w) =
      JsonResponse (jsonify_message searching_failed) 200"
    by (simp add: handle_request_message [OF getitem_single] s)
  moreover have "fst (answer_from_knowledgebase message (w\<lparr>qa := None\<rparr>)) = unavailable"
    by (simp add: answer_from_knowledgebase_None)
  moreover have "fst (search_knowledgebase message (w\<lparr>qa := None\<rparr>)) = unavailable"
    by (simp add: search_knowledgebase_None)
  moreover have "distinct [unavailable, processing_failed, searching_failed]"
    by (simp add: failure_strings_distinct)
  ultimately show ?thesis using a s answer_as_chatbot_case by blast
qed

theorem upstream_failure_strings_witness:
  "qa broken_world = Some broken_pipeline \<and>
   broken_pipeline (clock broken_world) refund_question =
     Inl (OtherException (lit ''CohereError'') (lit ''service unavailable'')) \<and>
   fst (answer_from_knowledgebase refund_question broken_world) =
     lit ''An error occurred while processing your request. Please try again.'' \<and>
   fst (search_knowledgebase refund_question broken_world) =
     lit ''An error occurred while searching the knowledge base. Please try again.'' \<and>
   fst (handle_request greeting_llm (Search, JDict [(lit ''message'', refund_question)])
          broken_world) =
     JsonResponse (jsonify_message searching_failed) 200"
proof -
  have h1: "qa broken_world = Some broken_pipeline"
    by (simp add: example_worlds)
  have h2: "broken_pipeline (clock broken_world) refund_question =
     Inl (OtherException (lit ''CohereError'') (lit ''service unavailable''))"
    by (simp add: broken_pipeline_def)
  show ?thesis
    using h1 h2 upstream_failure_strings [OF h1 h2, of greeting_llm]
    by (simp add: processing_failed_def searching_failed_def)
qed

text \<open>
  C4, as stated, fails: with a pipeline whose call raises, the two knowledge-base
  functions return different strings, and neither is the unavailability string, so three
  literal strings are in use, not two.
\<close>

theorem failure_strings_counterexample:
  "broken_pipeline (clock broken_world) refund_question =
     Inl (OtherException (lit ''CohereError'') (lit ''service unavailable'')) \<and>
   fst (answer_from_knowledgebase refund_question broken_world) \<noteq>
     fst (search_knowledgebase refund_question broken_world) \<and>
   fst (answer_from_knowledgebase refund_question unavailable_world) \<noteq>
     fst (answer_from_knowledgebase refund_question broken_world) \<and>
   fst (answer_from_knowledgebase refund_question unavailable_world) \<noteq>
     fst (search_knowledgebase refund_question broken_world)"
proof -
  have h1: "qa broken_world = Some broken_pipeline"
    by (simp add: example_worlds)
  have h2: "broken_pipeline (clock broken_world) refund_question =
     Inl (OtherException (lit ''CohereError'') (lit ''service unavailable''))"
    by (simp add: broken_pipeline_def)
  have h3: "qa unavailable_world = None"
    by (simp add: example_worlds)
  show ?thesis
    using h2
    by (simp add: answer_from_knowledgebase_Inl [OF h1 h2] search_knowledgebase_Inl [OF h1 h2]
        answer_from_knowledgebase_None [OF h3] failure_strings_distinct)
qed

text \<open>
  C5. When \<open>COHERE_API_KEY\<close> is absent from the environment, the try block of
  \<open>answer_as_chatbot\<close> raises the \<open>ValueError\<close>, the except clause catches it, and the
  function returns the generic failure string; nothing is submitted to the hosted model,
  and \<open>/answer\<close> responds with that string and status 200.
\<close>

theorem answer_as_chatbot_no_credential:
  assumes "environ w (lit ''COHERE_API_KEY'') = None"
  shows "fst (chatbot_try cohere message w) =
      Inl (ValueError (lit ''COHERE_API_KEY environment variable not set'')) \<and>
    fst (answer_as_chatbot cohere message w) = processing_failed \<and>
    sent (snd (answer_as_chatbot cohere message w)) = sent w \<and>
    fst (handle_request cohere (Answer, JDict [(lit ''message'', message)]) w) =
      JsonResponse (jsonify_message processing_failed) 200"
proof -
  have t: "chatbot_try cohere message w =
      (Inl (ValueError (lit ''COHERE_API_KEY environment variable not set'')), w)"
    using assms by (rule chatbot_try_no_credential)
  then have r: "fst (answer_as_chatbot cohere message w) = processing_failed"
    by (simp add: answer_as_chatbot_def)
  have "sent (snd (answer_as_chatbot cohere message w)) = sent w"
    using t by (simp add: answer_as_chatbot_def print_error_def)
  moreover have "fst (handle_request cohere (Answer, JDict [(lit ''message'', message)]) w) =
      JsonResponse (jsonify_message processing_failed) 200"
    by (simp add: handle_request_message [OF getitem_single] r)
  ultimately show ?thesis using t r by simp
qed

theorem answer_as_chatbot_no_credential_witness:
  "environ unavailable_world (lit ''COHERE_API_KEY'') = None \<and>
   fst (answer_as_chatbot greeting_llm refund_question unavailable_world) =
     lit ''An error occurred while processing your request. Please try again.''"
proof -
  have h: "environ unavailable_world (lit ''COHERE_API_KEY'') = None"
    by (simp add: example_worlds no_credential_def)
  show ?thesis
    using h answer_as_chatbot_no_credential [OF h, of greeting_llm refund_question]
    by (simp add: processing_failed_def)
qed

text \<open>
  C6. A POST request to any of the three routes whose JSON body is an object with a
  \<open>message\<close> member is answered with status 200 and a JSON object whose only member
  is \<open>message\<close>, holding a string, whatever happens inside the wrapper function.
\<close>

theorem message_request_status_200:
  assumes "lit ''message'' \<in> fst ` set (object_members body)"
  shows "\<exists>text. fst (handle_request cohere (r, body) w) =
      JsonResponse (JDict [(lit ''message'', JStr text)]) 200"
proof -
  obtain message where "getitem body (lit ''message'') = Inr message"
    using getitem_present [OF assms] by blast
  then show ?thesis
    by (cases r) (simp_all add: handle_request_message jsonify_message_def)
qed

theorem message_request_status_200_witness:
  "lit ''message'' \<in> fst ` set (object_members refund_body) \<and>
   fst (handle_request greeting_llm (Kbanswer, refund_body) broken_world) =
     JsonResponse
       (JDict [(lit ''message'',
                JStr (lit ''An error occurred while processing your request. Please try again.''))])
       200"
proof -
  have h: "lit ''message'' \<in> fst ` set (object_members refund_body)"
    by (simp add: refund_body_def)
  have h1: "qa broken_world = Some broken_pipeline"
    by (simp add: example_worlds)
  have h2: "broken_pipeline (clock broken_world) refund_question =
     Inl (OtherException (lit ''CohereError'') (lit ''service unavailable''))"
    by (simp add: broken_pipeline_def)
  obtain reply where t: "fst (handle_request greeting_llm (Kbanswer, refund_body) broken_world) =
      JsonResponse (JDict [(lit ''message'', JStr reply)]) 200"
    using message_request_status_200 [OF h, of greeting_llm Kbanswer broken_world] by blast
  have "fst (handle_request greeting_llm (Kbanswer, refund_body) broken_world) =
      JsonResponse (jsonify_message processing_failed) 200"
    by (simp add: handle_request_message [OF example_bodies(1)]
        answer_from_knowledgebase_Inl [OF h1 h2])
  with t have "reply = processing_failed"
    by (simp add: jsonify_message_def)
  with t h show ?thesis by (simp add: processing_failed_def)
qed

text \<open>
  C7. When the pipeline is available and its call returns, \<open>answer_from_knowledgebase\<close>
  returns the \<open>result\<close> field of what the pipeline returned, unchanged, and
  \<open>/kbanswer\<close> responds with it as the message, status 200.
\<close>

theorem answer_from_knowledgebase_result:
  assumes "qa w = Some chain" and "chain (clock w) message = Inr res"
  shows "fst (answer_from_knowledgebase message w) = result res \<and>
    fst (handle_request cohere (Kbanswer, JDict [(lit ''message'', message)]) w) =
      JsonResponse (JDict [(lit ''message'', JStr (result res))]) 200"
proof -
  have a: "fst (answer_from_knowledgebase message w) = result res"
    using assms by (simp add: answer_from_knowledgebase_Inr)
  then show ?thesis
    by (simp add: handle_request_message [OF getitem_single] jsonify_message_def)
qed

theorem answer_from_knowledgebase_result_witness:
  "qa policy_world = Some policy_pipeline \<and>
   policy_pipeline (clock policy_world) (JStr (lit ''What is the refund policy?'')) =
     Inr \<lparr>result = lit ''Refunds are processed within 14 days.'',
          source_documents = policy_documents\<rparr> \<and>
   fst (handle_request greeting_llm
          (Kbanswer, JDict [(lit ''message'', JStr (lit ''What is the refund policy?''))])
          policy_world) =
     JsonResponse
       (JDict [(lit ''message'', JStr (lit ''Refunds are processed within 14 days.''))]) 200"
proof -
  have h1: "qa policy_world = Some policy_pipeline"
    by (simp add: example_worlds)
  have h2: "policy_pipeline (clock policy_world) (JStr (lit ''What is the refund policy?'')) =
     Inr \<lparr>result = lit ''Refunds are processed within 14 days.'',
          source_documents = policy_documents\<rparr>"
    by (simp add: policy_pipeline_def)
  show ?thesis
    using h1 h2 answer_from_knowledgebase_result [OF h1 h2, of greeting_llm] by simp
qed

text \<open>
  C8. Every run of \<open>answer_as_chatbot\<close> starts from an empty conversation buffer: in two
  processes with the same environment, after any two sequences of requests, the function
  given the same message submits the same calls to the hosted model, each with an empty
  chat history and the message as human input; and when the hosted model gives the two
  calls the same outcome, the function returns the same string.
\<close>

theorem answer_as_chatbot_fresh_memory:
  assumes "environ wa = environ wb"
    and "va = snd (serve cohere_a reqs_a wa)" and "vb = snd (serve cohere_b reqs_b wb)"
  shows "new_calls cohere_a message va = new_calls cohere_b message vb \<and>
    (\<forall>c \<in> set (new_calls cohere_a message va). chat_history c = [] \<and> human_input c = message) \<and>
    ((\<forall>c. cohere_a (clock va) c = cohere_b (clock vb) c) \<longrightarrow>
       fst (answer_as_chatbot cohere_a message va) = fst (answer_as_chatbot cohere_b message vb))"
proof -
  have env: "environ va = environ vb"
    using assms by (simp add: serve_keeps)
  have "new_calls cohere_a message va = new_calls cohere_b message vb"
    by (simp add: new_calls_eq env)
  moreover have
    "\<forall>c \<in> set (new_calls cohere_a message va). chat_history c = [] \<and> human_input c = message"
    by (auto simp: new_calls_eq split: option.splits if_splits)
  moreover have "(\<forall>c. cohere_a (clock va) c = cohere_b (clock vb) c) \<longrightarrow>
       fst (answer_as_chatbot cohere_a message va) = fst (answer_as_chatbot cohere_b message vb)"
    by (auto simp: answer_as_chatbot_result env split: option.splits)
  ultimately show ?thesis by blast
qed

theorem answer_as_chatbot_fresh_memory_witness:
  "environ policy_world = environ broken_world \<and>
   new_calls greeting_llm refund_question (snd (serve greeting_llm [] policy_world)) =
     [\<lparr>api_key = lit ''secret'', temperature = 7 / 10, prompt = template,
       chat_history = [], human_input = refund_question\<rparr>] \<and>
   new_calls moody_llm refund_question (snd (serve moody_llm mixed_requests broken_world)) =
     [\<lparr>api_key = lit ''secret'', temperature = 7 / 10, prompt = template,
       chat_history = [], human_input = refund_question\<rparr>]"
proof -
  have h: "environ policy_world = environ broken_world"
    by (simp add: example_worlds)
  have first: "new_calls greeting_llm refund_question (snd (serve greeting_llm [] policy_world)) =
     [\<lparr>api_key = lit ''secret'', temperature = 7 / 10, prompt = template,
       chat_history = [], human_input = refund_question\<rparr>]"
    by (simp add: new_calls_eq example_worlds with_credential_def lit_def)
  show ?thesis
    using h first
      answer_as_chatbot_fresh_memory [OF h refl refl,
        where cohere_a = greeting_llm and reqs_a = "[]" and cohere_b = moody_llm
          and reqs_b = mixed_requests and message = refund_question]
    by simp
qed

text \<open>
  C9. The module-level handle \<open>qa\<close> is assigned once, at start-up, with what
  \<open>load_db\<close> returned; no request changes it, so after every sequence of requests it has
  the value it had before.
\<close>

theorem qa_read_only:
  "qa (startup build env) =
     fst (load_db build \<lparr>environ = env, qa = None, stdout = [], clock = 0, sent = []\<rparr>) \<and>
   qa (snd (handle_request cohere req w)) = qa w \<and>
   qa (snd (serve cohere reqs w)) = qa w"
  by (simp add: startup_def handle_request_keeps serve_keeps split: prod.splits)

theorem qa_read_only_witness:
  "qa (snd (serve moody_llm mixed_requests policy_world)) = Some policy_pipeline"
  using qa_read_only [of build_policy with_credential moody_llm "(Answer, refund_body)"
      policy_world mixed_requests]
  by (simp add: example_worlds)

text \<open>
  C10. When the pipeline is available and its call returns an empty list of source
  documents, \<open>search_knowledgebase\<close> returns the empty string, and \<open>/search\<close> responds
  with the empty string as the message, status 200.
\<close>

theorem search_knowledgebase_no_documents:
  assumes "qa w = Some chain" and "chain (clock w) message = Inr res"
    and "source_documents res = []"
  shows "fst (search_knowledgebase message w) = [] \<and>
    fst (handle_request cohere (Search, JDict [(lit ''message'', message)]) w) =
      JsonResponse (JDict [(lit ''message'', JStr [])]) 200"
proof -
  have "fst (search_knowledgebase message w) = []"
    using assms by (simp add: search_knowledgebase_Inr strip_def)
  then show ?thesis
    by (simp add: handle_request_message [OF getitem_single] jsonify_message_def)
qed

theorem search_knowledgebase_no_documents_witness:
  "qa silent_world = Some silent_pipeline \<and>
   silent_pipeline (clock silent_world) refund_question =
     Inr \<lparr>result = lit ''I do not know.'', source_documents = []\<rparr> \<and>
   source_documents \<lparr>result = lit ''I do not know.'', source_documents = []\<rparr> = [] \<and>
   fst (handle_request greeting_llm (Search, JDict [(lit ''message'', refund_question)])
          silent_world) =
     JsonResponse (JDict [(lit ''message'', JStr [])]) 200"
proof -
  have h1: "qa silent_world = Some silent_pipeline"
    by (simp add: example_worlds)
  have h2: "silent_pipeline (clock silent_world) refund_question =
     Inr \<lparr>result = lit ''I do not know.'', source_documents = []\<rparr>"
    by (simp add: silent_pipeline_def)
  have h3: "source_documents \<lparr>result = lit ''I do not know.'', source_documents = []\<rparr> = []"
    by simp
  show ?thesis
    using h1 h2 search_knowledgebase_no_documents [OF h1 h2 h3, of greeting_llm] by simp
qed

end
